theory Spec2Isabelle
  imports Main
begin

section \<open>JavaScript values, profile objects and errors\<close>

text \<open>
  The values that occur as properties of a profile object. \<open>Iso t\<close> stands for the string
  \<^verbatim>\<open>new Date(t).toISOString()\<close>, the ISO-8601 rendering of the instant \<open>t\<close>
  (milliseconds since the epoch); it is a non-empty string, so it is truthy.
\<close>

datatype jsval = Undefined | Null | Str string | Iso nat

text \<open>
  A JavaScript object literal of type \<^verbatim>\<open>Partial<UserProfile>\<close>: a finite map from
  property names to values. A property may be present with the value \<open>Undefined\<close>
  (as in \<^verbatim>\<open>name: user.displayName || undefined\<close>).
\<close>

type_synonym jsobject = "string \<rightharpoonup> jsval"

text \<open>Property read \<^verbatim>\<open>obj.k\<close>: an absent property reads as \<open>Undefined\<close>.\<close>

definition js_prop :: "jsobject \<Rightarrow> string \<Rightarrow> jsval" where
  "js_prop obj k = (case obj k of None \<Rightarrow> Undefined | Some v \<Rightarrow> v)"

fun truthy :: "jsval \<Rightarrow> bool" where
  "truthy Undefined = False"
| "truthy Null = False"
| "truthy (Str s) = (s \<noteq> [])"
| "truthy (Iso t) = True"

text \<open>The operator \<^verbatim>\<open>a || b\<close>.\<close>

definition js_or :: "jsval \<Rightarrow> jsval \<Rightarrow> jsval" where
  "js_or a b = (if truthy a then a else b)"

text \<open>A nullable string of the identity provider (\<^verbatim>\<open>string | null\<close>) as a value.\<close>

definition nullable :: "string option \<Rightarrow> jsval" where
  "nullable s = (case s of None \<Rightarrow> Null | Some x \<Rightarrow> Str x)"

datatype jserror = Error (err_message: string) (err_code: "string option")

text \<open>The identity provider's \<^verbatim>\<open>User\<close>, with the properties this code reads.\<close>

record user =
  user_uid :: string
  user_email :: "string option"
  user_displayName :: "string option"
  user_photoURL :: "string option"

datatype toast = ToastError string | ToastSuccess string

text \<open>The calls that leave the process: document store and identity provider.\<close>

datatype remote_call =
    DbGet string
  | DbSet string jsobject
  | DbUpdate string jsobject
  | SignInWithEmailAndPassword string string
  | CreateUserWithEmailAndPassword string string
  | SignOut
  | SignInWithPopup
  | SendPasswordResetEmail string
  | ReauthenticateWithCredential string string string
  | FirebaseUpdatePassword string string

section \<open>The world: remote store, environment and session state\<close>

text \<open>
  \<^item> \<open>users_db\<close>: the document store, the children of each path. A node with no
    children does not exist (\<^verbatim>\<open>snapshot.exists()\<close> is false). Each
    \<^verbatim>\<open>users/<uid>\<close> path is a node of its own.
  \<^item> \<open>faults\<close>: what the \<open>k\<close>-th remote call does: \<open>Some e\<close> rejects with \<open>e\<close>
    and leaves the store as it is, \<open>None\<close> succeeds. Any behaviour of the services is a
    choice of this function, a call refused for its argument included (the store
    refuses an object with an undefined property).
  \<^item> \<open>identity\<close>: the user the identity provider answers with at the \<open>k\<close>-th call.
  \<^item> \<open>ref_fault\<close>: whether \<^verbatim>\<open>ref(db, path)\<close> throws (the handle \<^verbatim>\<open>db\<close> is null
    after a failed initialisation, or the path is refused).
  \<^item> \<open>calls\<close>: the remote calls attempted so far, in order.
  \<^item> \<open>clock\<close>, \<open>reads\<close>: the \<open>k\<close>-th reading of \<^verbatim>\<open>new Date()\<close> and the number
    of readings taken.
  \<^item> \<open>toasts\<close>, \<open>console\<close>: the notifications shown and the errors logged.
  \<^item> \<open>currentUser\<close>, \<open>userProfile\<close>, \<open>loading\<close>, \<open>isOffline\<close>: the state of
    \<^verbatim>\<open>AuthProvider\<close>.
\<close>

record world =
  users_db :: "string \<Rightarrow> jsobject"
  faults :: "nat \<Rightarrow> jserror option"
  identity :: "nat \<Rightarrow> user"
  ref_fault :: "string \<Rightarrow> jserror option"
  calls :: "remote_call list"
  clock :: "nat \<Rightarrow> nat"
  reads :: nat
  toasts :: "toast list"
  console :: "(string \<times> jserror) list"
  currentUser :: "user option"
  userProfile :: "jsobject option"
  loading :: bool
  isOffline :: bool

text \<open>An asynchronous function: it runs on a world and either throws or returns.\<close>

type_synonym 'a task = "world \<Rightarrow> (jserror + 'a) \<times> world"

definition return_task :: "'a \<Rightarrow> 'a task" where
  "return_task x w = (Inr x, w)"

definition throw_task :: "jserror \<Rightarrow> 'a task" where
  "throw_task e w = (Inl e, w)"

definition bind_task :: "'a task \<Rightarrow> ('a \<Rightarrow> 'b task) \<Rightarrow> 'b task" where
  "bind_task m f w = (case m w of (Inl e, w') \<Rightarrow> (Inl e, w') | (Inr x, w') \<Rightarrow> f x w')"

definition then_task :: "'a task \<Rightarrow> 'b task \<Rightarrow> 'b task" where
  "then_task m n = bind_task m (\<lambda>_. n)"

text \<open>\<^verbatim>\<open>try { m } catch (error) { h(error) }\<close>\<close>

definition try_catch :: "'a task \<Rightarrow> (jserror \<Rightarrow> 'a task) \<Rightarrow> 'a task" where
  "try_catch m h w = (case m w of (Inl e, w') \<Rightarrow> h e w' | (Inr x, w') \<Rightarrow> (Inr x, w'))"

subsection \<open>Primitives\<close>

text \<open>A remote call: logged, then decided by \<open>faults\<close>. It returns its own index.\<close>

definition remote :: "remote_call \<Rightarrow> nat task" where
  "remote c w =
     (let k = length (calls w); w' = w\<lparr>calls := calls w @ [c]\<rparr>
      in case faults w k of Some e \<Rightarrow> (Inl e, w') | None \<Rightarrow> (Inr k, w'))"

text \<open>\<^verbatim>\<open>new Date().toISOString()\<close>\<close>

definition new_Date_toISOString :: "jsval task" where
  "new_Date_toISOString w = (Inr (Iso (clock w (reads w))), w\<lparr>reads := Suc (reads w)\<rparr>)"

definition console_error :: "string \<Rightarrow> jserror \<Rightarrow> unit task" where
  "console_error msg e w = (Inr (), w\<lparr>console := console w @ [(msg, e)]\<rparr>)"

definition toast_error :: "string \<Rightarrow> unit task" where
  "toast_error msg w = (Inr (), w\<lparr>toasts := toasts w @ [ToastError msg]\<rparr>)"

definition toast_success :: "string \<Rightarrow> unit task" where
  "toast_success msg w = (Inr (), w\<lparr>toasts := toasts w @ [ToastSuccess msg]\<rparr>)"

subsection \<open>The document store\<close>

text \<open>
  What a written object leaves in the store: a property that is \<open>Null\<close> or \<open>Undefined\<close>
  is not stored.
\<close>

definition stored :: "jsobject \<Rightarrow> jsobject" where
  "stored obj = (\<lambda>k. case obj k of
       None \<Rightarrow> None | Some Undefined \<Rightarrow> None | Some Null \<Rightarrow> None | Some v \<Rightarrow> Some v)"

text \<open>
  A partial merge: a property of the written object replaces the child of that name, a
  \<open>Null\<close> property removes it, every other child stays. An \<open>Undefined\<close> property
  writes nothing, when the store accepts the call at all.
\<close>

definition merged :: "jsobject \<Rightarrow> jsobject \<Rightarrow> jsobject" where
  "merged old obj = (\<lambda>k. case obj k of
       None \<Rightarrow> old k | Some Undefined \<Rightarrow> old k | Some Null \<Rightarrow> None | Some v \<Rightarrow> Some v)"

text \<open>\<^verbatim>\<open>ref(db, path)\<close>\<close>

definition ref :: "string \<Rightarrow> string task" where
  "ref path w = (case ref_fault w path of Some e \<Rightarrow> (Inl e, w) | None \<Rightarrow> (Inr path, w))"

text \<open>\<^verbatim>\<open>get(ref)\<close>: the snapshot is the children of the node.\<close>

definition get :: "string \<Rightarrow> jsobject task" where
  "get r = bind_task (remote (DbGet r)) (\<lambda>_ w. (Inr (users_db w r), w))"

definition snapshot_exists :: "jsobject \<Rightarrow> bool" where
  "snapshot_exists snapshot = (snapshot \<noteq> Map.empty)"

text \<open>\<^verbatim>\<open>set(ref, value)\<close>: replaces the node.\<close>

definition set_db :: "string \<Rightarrow> jsobject \<Rightarrow> unit task" where
  "set_db r obj = bind_task (remote (DbSet r obj))
     (\<lambda>_ w. (Inr (), w\<lparr>users_db := (users_db w)(r := stored obj)\<rparr>))"

text \<open>\<^verbatim>\<open>update(ref, values)\<close>: merges into the node.\<close>

definition update_db :: "string \<Rightarrow> jsobject \<Rightarrow> unit task" where
  "update_db r obj = bind_task (remote (DbUpdate r obj))
     (\<lambda>_ w. (Inr (), w\<lparr>users_db := (users_db w)(r := merged (users_db w r) obj)\<rparr>))"

section \<open>services/firebase/userProfile.ts\<close>

definition users_path :: "string \<Rightarrow> string" where
  "users_path uid = ''users/'' @ uid"

definition fetchUserProfile :: "string \<Rightarrow> jsobject option task" where
  "fetchUserProfile uid =
     try_catch
       (bind_task (ref (users_path uid)) (\<lambda>userRef.
        bind_task (get userRef) (\<lambda>snapshot.
        if \<not> snapshot_exists snapshot then
          bind_task new_Date_toISOString (\<lambda>created.
          bind_task new_Date_toISOString (\<lambda>updated.
          let defaultProfile =
                [''email'' \<mapsto> Str '''', ''phone'' \<mapsto> Str '''',
                 ''createdAt'' \<mapsto> created, ''updatedAt'' \<mapsto> updated]
          in then_task (set_db userRef defaultProfile)
               (return_task (Some ([''id'' \<mapsto> Str uid] ++ defaultProfile)))))
        else return_task (Some ([''id'' \<mapsto> Str uid] ++ snapshot)))))
       (\<lambda>error.
        then_task (console_error ''Error fetching user profile:'' error)
       (then_task (toast_error ''Unable to load profile'')
        (return_task None)))"

definition updateUserProfile :: "string \<Rightarrow> jsobject \<Rightarrow> unit task" where
  "updateUserProfile uid data =
     try_catch
       (bind_task (ref (users_path uid)) (\<lambda>userRef.
        bind_task new_Date_toISOString (\<lambda>now.
        let updateData = data ++ [''updatedAt'' \<mapsto> now]
        in update_db userRef updateData)))
       (\<lambda>error.
        then_task (console_error ''Error updating user profile:'' error)
          (throw_task error))"

definition createUserProfile :: "string \<Rightarrow> jsobject \<Rightarrow> unit task" where
  "createUserProfile uid data =
     try_catch
       (bind_task (ref (users_path uid)) (\<lambda>userRef.
        bind_task new_Date_toISOString (\<lambda>created.
        bind_task new_Date_toISOString (\<lambda>updated.
        set_db userRef
          (data ++ [''phone'' \<mapsto> js_or (js_prop data ''phone'') (Str ''''),
                    ''createdAt'' \<mapsto> created, ''updatedAt'' \<mapsto> updated])))))
       (\<lambda>error.
        then_task (console_error ''Error creating user profile:'' error)
          (throw_task error))"

section \<open>contexts/AuthContext.tsx\<close>

subsection \<open>State setters and the identity provider\<close>

definition setCurrentUser :: "user option \<Rightarrow> unit task" where
  "setCurrentUser u w = (Inr (), w\<lparr>currentUser := u\<rparr>)"

definition setUserProfile :: "jsobject option \<Rightarrow> unit task" where
  "setUserProfile p w = (Inr (), w\<lparr>userProfile := p\<rparr>)"

definition setLoading :: "bool \<Rightarrow> unit task" where
  "setLoading b w = (Inr (), w\<lparr>loading := b\<rparr>)"

definition setIsOffline :: "bool \<Rightarrow> unit task" where
  "setIsOffline b w = (Inr (), w\<lparr>isOffline := b\<rparr>)"

definition handleOnline :: "unit task" where
  "handleOnline = setIsOffline False"

definition handleOffline :: "unit task" where
  "handleOffline = setIsOffline True"

text \<open>A provider call that answers with a user.\<close>

definition remote_user :: "remote_call \<Rightarrow> user task" where
  "remote_user c = bind_task (remote c) (\<lambda>k w. (Inr (identity w k), w))"

definition signInWithEmailAndPassword :: "string \<Rightarrow> string \<Rightarrow> user task" where
  "signInWithEmailAndPassword email password =
     remote_user (SignInWithEmailAndPassword email password)"

definition createUserWithEmailAndPassword :: "string \<Rightarrow> string \<Rightarrow> user task" where
  "createUserWithEmailAndPassword email password =
     remote_user (CreateUserWithEmailAndPassword email password)"

definition signInWithPopup :: "user task" where
  "signInWithPopup = remote_user SignInWithPopup"

definition signOut :: "unit task" where
  "signOut = then_task (remote SignOut) (return_task ())"

definition sendPasswordResetEmail :: "string \<Rightarrow> unit task" where
  "sendPasswordResetEmail email = then_task (remote (SendPasswordResetEmail email)) (return_task ())"

definition reauthenticateWithCredential :: "user \<Rightarrow> string \<Rightarrow> string \<Rightarrow> unit task" where
  "reauthenticateWithCredential u email password =
     then_task (remote (ReauthenticateWithCredential (user_uid u) email password)) (return_task ())"

definition firebaseUpdatePassword :: "user \<Rightarrow> string \<Rightarrow> unit task" where
  "firebaseUpdatePassword u newPassword =
     then_task (remote (FirebaseUpdatePassword (user_uid u) newPassword)) (return_task ())"

text \<open>\<^verbatim>\<open>if (profile) { setUserProfile(profile); }\<close>\<close>

definition setUserProfile_if :: "jsobject option \<Rightarrow> unit task" where
  "setUserProfile_if profile =
     (case profile of Some p \<Rightarrow> setUserProfile (Some p) | None \<Rightarrow> return_task ())"

subsection \<open>The auth-state listener\<close>

text \<open>The body of the \<^verbatim>\<open>try\<close> block of the listener.\<close>

definition authStateTry :: "user \<Rightarrow> unit task" where
  "authStateTry u =
     bind_task (fetchUserProfile (user_uid u)) (\<lambda>profile. setUserProfile_if profile)"

definition authStateCatch :: "jserror \<Rightarrow> unit task" where
  "authStateCatch error =
     then_task (console_error ''Error fetching user profile:'' error)
       (\<lambda>w. if \<not> isOffline w then toast_error ''Unable to load profile'' w
            else return_task () w)"

definition onAuthStateChanged :: "user option \<Rightarrow> unit task" where
  "onAuthStateChanged usr =
     then_task (setCurrentUser usr)
    (then_task
       (case usr of
          Some u \<Rightarrow> try_catch (authStateTry u) authStateCatch
        | None \<Rightarrow> setUserProfile None)
       (setLoading False))"

subsection \<open>Operations\<close>

definition login :: "string \<Rightarrow> string \<Rightarrow> unit task" where
  "login email password =
     try_catch
       (bind_task (signInWithEmailAndPassword email password) (\<lambda>result.
        bind_task (fetchUserProfile (user_uid result)) (\<lambda>profile.
        then_task (setUserProfile_if profile)
          (toast_success ''Successfully logged in!''))))
       (\<lambda>error.
        then_task (console_error ''Login error:'' error)
       (then_task
          (if err_code error = Some ''auth/network-request-failed''
           then toast_error ''Network error. Please check your connection.''
           else toast_error ''Failed to login'')
          (throw_task error)))"

definition register :: "string \<Rightarrow> string \<Rightarrow> string \<Rightarrow> unit task" where
  "register email password name =
     try_catch
       (bind_task (createUserWithEmailAndPassword email password) (\<lambda>usr.
        bind_task new_Date_toISOString (\<lambda>created.
        then_task
          (createUserProfile (user_uid usr)
             [''name'' \<mapsto> Str name, ''email'' \<mapsto> Str email,
              ''phone'' \<mapsto> Str '''', ''createdAt'' \<mapsto> created])
       (bind_task (fetchUserProfile (user_uid usr)) (\<lambda>profile.
        then_task (setUserProfile_if profile)
          (toast_success ''Successfully registered!''))))))
       (\<lambda>error.
        then_task (console_error ''Registration error:'' error)
       (then_task (toast_error ''Failed to register'')
          (throw_task error)))"

definition logout :: "unit task" where
  "logout =
     try_catch
       (then_task signOut
       (then_task (setUserProfile None)
          (toast_success ''Successfully logged out!'')))
       (\<lambda>error.
        then_task (console_error ''Logout error:'' error)
       (then_task (toast_error ''Failed to logout'')
          (throw_task error)))"

definition updateProfile :: "jsobject \<Rightarrow> unit task" where
  "updateProfile data w =
     (case currentUser w of
        None \<Rightarrow> throw_task (Error ''No user logged in'' None) w
      | Some cu \<Rightarrow>
          try_catch
            (then_task (updateUserProfile (user_uid cu) data)
            (bind_task (fetchUserProfile (user_uid cu)) (\<lambda>updatedProfile.
             then_task (setUserProfile_if updatedProfile)
               (toast_success ''Profile updated successfully!''))))
            (\<lambda>error.
             then_task (console_error ''Profile update error:'' error)
            (then_task
               (\<lambda>w'. if \<not> isOffline w' then toast_error ''Failed to update profile'' w'
                     else return_task () w')
               (throw_task error)))
            w)"

text \<open>
  The guard \<^verbatim>\<open>!currentUser?.email\<close> holds when there is no user, when the user's email is
  null and when it is the empty string.
\<close>

definition updatePassword :: "string \<Rightarrow> string \<Rightarrow> unit task" where
  "updatePassword currentPassword newPassword w =
     (case currentUser w of
        None \<Rightarrow> throw_task (Error ''No user logged in'' None) w
      | Some cu \<Rightarrow>
          (case user_email cu of
             None \<Rightarrow> throw_task (Error ''No user logged in'' None) w
           | Some email \<Rightarrow>
               if \<not> truthy (Str email) then throw_task (Error ''No user logged in'' None) w
               else
                 try_catch
                   (then_task (reauthenticateWithCredential cu email currentPassword)
                   (then_task (firebaseUpdatePassword cu newPassword)
                      (toast_success ''Password updated successfully'')))
                   (\<lambda>error.
                    then_task (console_error ''Password update error:'' error)
                   (then_task (toast_error ''Failed to update password'')
                      (throw_task error)))
                   w))"

definition googleSignIn :: "unit task" where
  "googleSignIn =
     try_catch
       (bind_task signInWithPopup (\<lambda>usr.
        then_task
          (createUserProfile (user_uid usr)
             [''name'' \<mapsto> js_or (nullable (user_displayName usr)) Undefined,
              ''email'' \<mapsto> nullable (user_email usr),
              ''phone'' \<mapsto> Str '''',
              ''photoURL'' \<mapsto> js_or (nullable (user_photoURL usr)) Undefined])
       (bind_task (fetchUserProfile (user_uid usr)) (\<lambda>profile.
        then_task (setUserProfile_if profile)
          (toast_success ''Successfully signed in with Google!'')))))
       (\<lambda>error.
        then_task (console_error ''Google sign-in error:'' error)
       (then_task (toast_error ''Failed to sign in with Google'')
          (throw_task error)))"

definition resetPassword :: "string \<Rightarrow> unit task" where
  "resetPassword email =
     try_catch
       (then_task (sendPasswordResetEmail email)
          (toast_success ''Password reset email sent!''))
       (\<lambda>error.
        then_task (console_error ''Password reset error:'' error)
       (then_task (toast_error ''Failed to send reset email'')
          (throw_task error)))"

section \<open>Projections and example worlds\<close>

text \<open>The property \<open>k\<close> of the profile a fetch returned (\<open>None\<close> if it returned null or threw).\<close>

definition result_prop :: "(jserror + jsobject option) \<times> world \<Rightarrow> string \<Rightarrow> jsval option" where
  "result_prop r k = (case fst r of Inr (Some p) \<Rightarrow> p k | _ \<Rightarrow> None)"

definition alice :: user where
  "alice = \<lparr>user_uid = ''u1'', user_email = Some ''a@x.com'',
            user_displayName = Some ''Alice'', user_photoURL = Some ''a.png''\<rparr>"

text \<open>
  The state \<^verbatim>\<open>AuthProvider\<close> starts in, on an empty store, with services that answer and
  a clock that advances by one millisecond per reading.
\<close>

definition initial_world :: world where
  "initial_world =
     \<lparr>users_db = (\<lambda>_. Map.empty), faults = (\<lambda>_. None), identity = (\<lambda>_. alice),
      ref_fault = (\<lambda>_. None), calls = [], clock = (\<lambda>k. 1000 + k), reads = 0,
      toasts = [], console = [], currentUser = None, userProfile = None,
      loading = True, isOffline = False\<rparr>"

definition network_error :: jserror where
  "network_error = Error ''Network Error'' (Some ''auth/network-request-failed'')"

definition wrong_password :: jserror where
  "wrong_password = Error ''Firebase: Error (auth/wrong-password).'' (Some ''auth/wrong-password'')"

text \<open>Alice is signed in, the browser is offline and every remote call fails.\<close>

definition offline_world :: world where
  "offline_world =
     initial_world\<lparr>faults := (\<lambda>_. Some network_error), currentUser := Some alice,
                   loading := False, isOffline := True\<rparr>"

text \<open>Alice is signed in and has a profile record from an earlier session.\<close>

definition registered_world :: world where
  "registered_world =
     initial_world\<lparr>users_db := (\<lambda>_. Map.empty)(''users/u1'' :=
                      [''name'' \<mapsto> Str ''Alice'', ''email'' \<mapsto> Str ''a@x.com'',
                       ''phone'' \<mapsto> Str ''555'', ''createdAt'' \<mapsto> Iso 10,
                       ''updatedAt'' \<mapsto> Iso 20]),
                   currentUser := Some alice, loading := False\<rparr>"

section \<open>Operations as events\<close>

text \<open>
  Everything this code can be asked to do: the three functions of the profile service,
  the listeners and the operations the context exports. A history of the program is a
  list of them, performed one after the other on the world.
\<close>

datatype operation =
    FetchUserProfile string
  | UpdateUserProfile string jsobject
  | CreateUserProfile string jsobject
  | AuthStateChanged "user option"
  | Online
  | Offline
  | Login string string
  | Register string string string
  | Logout
  | UpdateProfile jsobject
  | UpdatePassword string string
  | GoogleSignIn
  | ResetPassword string

fun perform :: "operation \<Rightarrow> world \<Rightarrow> world" where
  "perform (FetchUserProfile uid) w = snd (fetchUserProfile uid w)"
| "perform (UpdateUserProfile uid data) w = snd (updateUserProfile uid data w)"
| "perform (CreateUserProfile uid data) w = snd (createUserProfile uid data w)"
| "perform (AuthStateChanged usr) w = snd (onAuthStateChanged usr w)"
| "perform Online w = snd (handleOnline w)"
| "perform Offline w = snd (handleOffline w)"
| "perform (Login email password) w = snd (login email password w)"
| "perform (Register email password name) w = snd (register email password name w)"
| "perform Logout w = snd (logout w)"
| "perform (UpdateProfile data) w = snd (updateProfile data w)"
| "perform (UpdatePassword currentPassword newPassword) w =
     snd (updatePassword currentPassword newPassword w)"
| "perform GoogleSignIn w = snd (googleSignIn w)"
| "perform (ResetPassword email) w = snd (resetPassword email w)"

fun perform_all :: "operation list \<Rightarrow> world \<Rightarrow> world" where
  "perform_all [] w = w"
| "perform_all (x # xs) w = perform_all xs (perform x w)"

text \<open>
  The operations that never reach \<open>createUserProfile\<close> and that, when they update,
  are given no createdAt.
\<close>

fun merges_only :: "operation \<Rightarrow> bool" where
  "merges_only (CreateUserProfile uid data) = False"
| "merges_only (Register email password name) = False"
| "merges_only GoogleSignIn = False"
| "merges_only (UpdateUserProfile uid data) = (data ''createdAt'' = None)"
| "merges_only (UpdateProfile data) = (data ''createdAt'' = None)"
| "merges_only x = True"

type_synonym store = "string \<Rightarrow> jsobject"

text \<open>A task relates the store before it to the store after it by \<open>R\<close>, whatever it returns.\<close>

definition store_rel :: "(store \<Rightarrow> store \<Rightarrow> bool) \<Rightarrow> 'a task \<Rightarrow> bool" where
  "store_rel R m = (\<forall>w. R (users_db w) (users_db (snd (m w))))"

definition preorder_rel :: "(store \<Rightarrow> store \<Rightarrow> bool) \<Rightarrow> bool" where
  "preorder_rel R = ((\<forall>d. R d d) \<and> (\<forall>a b c. R a b \<longrightarrow> R b c \<longrightarrow> R a c))"

definition no_delete :: "store \<Rightarrow> store \<Rightarrow> bool" where
  "no_delete db db' = (\<forall>p. db p \<noteq> Map.empty \<longrightarrow> db' p \<noteq> Map.empty)"

definition same_createdAt :: "store \<Rightarrow> store \<Rightarrow> bool" where
  "same_createdAt db db' =
     (\<forall>p. db p ''createdAt'' \<noteq> None \<longrightarrow> db' p ''createdAt'' = db p ''createdAt'')"

text \<open>Partial data used in the examples.\<close>

definition id_data :: jsobject where
  "id_data = [''id'' \<mapsto> Str ''u2'']"

definition name_data :: jsobject where
  "name_data = [''name'' \<mapsto> Str ''X'']"

text \<open>Alice's world after \<^verbatim>\<open>updateUserProfile("u1", {id: "u2"})\<close>.\<close>

definition renamed_world :: world where
  "renamed_world = perform (UpdateUserProfile ''u1'' id_data) registered_world"

text \<open>
  Alice's record was last updated by a client whose clock runs ahead: its updatedAt is
  later than every reading this client's clock is about to give.
\<close>

definition ahead_world :: world where
  "ahead_world =
     initial_world\<lparr>users_db := (\<lambda>_. Map.empty)(''users/u1'' :=
                      [''name'' \<mapsto> Str ''Alice'', ''email'' \<mapsto> Str ''a@x.com'',
                       ''phone'' \<mapsto> Str ''555'', ''createdAt'' \<mapsto> Iso 10,
                       ''updatedAt'' \<mapsto> Iso 5000]),
                   currentUser := Some alice, loading := False\<rparr>"

section \<open>Evaluation rules\<close>

lemmas task_defs =
  return_task_def throw_task_def bind_task_def then_task_def try_catch_def
  remote_def new_Date_toISOString_def console_error_def toast_error_def toast_success_def
  ref_def get_def set_db_def update_db_def snapshot_exists_def

lemmas world_defs =
  initial_world_def offline_world_def registered_world_def alice_def network_error_def
  wrong_password_def
  users_path_def

lemma stored_default:
  "stored [''email'' \<mapsto> Str e, ''phone'' \<mapsto> Str p, ''createdAt'' \<mapsto> Iso c, ''updatedAt'' \<mapsto> Iso u]
   = [''email'' \<mapsto> Str e, ''phone'' \<mapsto> Str p, ''createdAt'' \<mapsto> Iso c, ''updatedAt'' \<mapsto> Iso u]"
  by (rule ext) (simp add: stored_def)

section \<open>How tasks change the store\<close>

lemma bind_task_alt:
  "bind_task m f w = (case fst (m w) of Inl e \<Rightarrow> (Inl e, snd (m w)) | Inr x \<Rightarrow> f x (snd (m w)))"
  by (simp add: bind_task_def split: prod.splits sum.splits)

lemma try_catch_alt:
  "try_catch m h w = (case fst (m w) of Inl e \<Rightarrow> h e (snd (m w)) | Inr x \<Rightarrow> (Inr x, snd (m w)))"
  by (simp add: try_catch_def split: prod.splits sum.splits)

lemma preorder_no_delete: "preorder_rel no_delete"
  by (simp add: preorder_rel_def no_delete_def)

lemma preorder_same_createdAt: "preorder_rel same_createdAt"
  by (simp add: preorder_rel_def same_createdAt_def)

lemma store_rel_same:
  assumes "preorder_rel R" and "\<And>w. users_db (snd (m w)) = users_db w"
  shows "store_rel R m"
  using assms by (simp add: store_rel_def preorder_rel_def)

lemma store_rel_bind:
  assumes "preorder_rel R" and "store_rel R m" and "\<And>x. store_rel R (f x)"
  shows "store_rel R (bind_task m f)"
  unfolding store_rel_def
proof
  fix w
  show "R (users_db w) (users_db (snd (bind_task m f w)))"
  proof (cases "fst (m w)")
    case (Inl e)
    then show ?thesis using assms(2) by (simp add: bind_task_alt store_rel_def)
  next
    case (Inr x)
    have "R (users_db w) (users_db (snd (m w)))"
      using assms(2) by (simp add: store_rel_def)
    moreover have "R (users_db (snd (m w))) (users_db (snd (f x (snd (m w)))))"
      using assms(3) by (simp add: store_rel_def)
    ultimately show ?thesis
      using assms(1) Inr unfolding preorder_rel_def bind_task_alt by (metis sum.simps(6))
  qed
qed

lemma store_rel_then:
  assumes "preorder_rel R" and "store_rel R m" and "store_rel R n"
  shows "store_rel R (then_task m n)"
  unfolding then_task_def using assms by (intro store_rel_bind) simp_all

lemma store_rel_try:
  assumes "preorder_rel R" and "store_rel R m" and "\<And>e. store_rel R (h e)"
  shows "store_rel R (try_catch m h)"
  unfolding store_rel_def
proof
  fix w
  show "R (users_db w) (users_db (snd (try_catch m h w)))"
  proof (cases "fst (m w)")
    case (Inr x)
    then show ?thesis using assms(2) by (simp add: try_catch_alt store_rel_def)
  next
    case (Inl e)
    have "R (users_db w) (users_db (snd (m w)))"
      using assms(2) by (simp add: store_rel_def)
    moreover have "R (users_db (snd (m w))) (users_db (snd (h e (snd (m w)))))"
      using assms(3) by (simp add: store_rel_def)
    ultimately show ?thesis
      using assms(1) Inl unfolding preorder_rel_def try_catch_alt by (metis sum.simps(5))
  qed
qed

lemma store_rel_if:
  assumes "store_rel R a" and "store_rel R b"
  shows "store_rel R (if c then a else b)"
  using assms by simp

lemma store_rel_prims:
  assumes "preorder_rel R"
  shows "store_rel R (return_task x)"
    and "store_rel R (throw_task e)"
    and "store_rel R (remote c)"
    and "store_rel R (remote_user c)"
    and "store_rel R new_Date_toISOString"
    and "store_rel R (console_error s e)"
    and "store_rel R (toast_error s)"
    and "store_rel R (toast_success s)"
    and "store_rel R (setCurrentUser u)"
    and "store_rel R (setUserProfile pr)"
    and "store_rel R (setUserProfile_if pr)"
    and "store_rel R (setLoading b)"
    and "store_rel R (setIsOffline b)"
    and "store_rel R (ref path)"
    and "store_rel R (get path)"
    and "store_rel R (\<lambda>w. if \<not> isOffline w then toast_error s w else return_task () w)"
  using assms
  by (intro store_rel_same;
      simp add: task_defs remote_user_def setCurrentUser_def setUserProfile_def
        setUserProfile_if_def setLoading_def setIsOffline_def Let_def split: option.splits)+

lemmas store_rel_intros =
  store_rel_bind store_rel_then store_rel_try store_rel_if store_rel_prims

subsection \<open>The profile service\<close>

lemma fetch_returns: "\<exists>r. fst (fetchUserProfile uid w) = Inr r"
  by (simp add: fetchUserProfile_def task_defs Let_def split: option.splits)

lemma fetch_only_fills:
  "users_db w p \<noteq> Map.empty \<Longrightarrow> users_db (snd (fetchUserProfile uid w)) p = users_db w p"
  by (auto simp add: fetchUserProfile_def task_defs Let_def split: option.splits)

lemma update_store:
  "users_db (snd (updateUserProfile uid data w)) = users_db w
   \<or> users_db (snd (updateUserProfile uid data w)) =
        (users_db w)(users_path uid :=
           merged (users_db w (users_path uid))
             (data ++ [''updatedAt'' \<mapsto> Iso (clock w (reads w))]))"
  by (simp add: updateUserProfile_def task_defs Let_def split: option.splits)

lemma create_store:
  "users_db (snd (createUserProfile uid data w)) = users_db w
   \<or> users_db (snd (createUserProfile uid data w)) =
        (users_db w)(users_path uid :=
           stored (data ++ [''phone'' \<mapsto> js_or (js_prop data ''phone'') (Str ''''),
                            ''createdAt'' \<mapsto> Iso (clock w (reads w)),
                            ''updatedAt'' \<mapsto> Iso (clock w (Suc (reads w)))]))"
  by (simp add: createUserProfile_def task_defs Let_def split: option.splits)

lemma create_ok:
  assumes "ref_fault w (users_path uid) = None"
    and "faults w (length (calls w)) = None"
  shows "fst (createUserProfile uid data w) = Inr ()"
    and "users_db (snd (createUserProfile uid data w)) =
      (users_db w)(users_path uid := stored (data ++
          [''phone'' \<mapsto> js_or (js_prop data ''phone'') (Str ''''),
           ''createdAt'' \<mapsto> Iso (clock w (reads w)),
           ''updatedAt'' \<mapsto> Iso (clock w (Suc (reads w)))]))"
  using assms
  by (simp_all add: createUserProfile_def task_defs Let_def)

lemma merged_updatedAt: "merged old (data ++ [''updatedAt'' \<mapsto> Iso t]) \<noteq> Map.empty"
proof
  assume "merged old (data ++ [''updatedAt'' \<mapsto> Iso t]) = Map.empty"
  then have "merged old (data ++ [''updatedAt'' \<mapsto> Iso t]) ''updatedAt'' = None" by simp
  then show False by (simp add: merged_def)
qed

lemma stored_updatedAt:
  "stored (data ++ [''phone'' \<mapsto> ph, ''createdAt'' \<mapsto> c, ''updatedAt'' \<mapsto> Iso u]) \<noteq> Map.empty"
proof
  assume "stored (data ++ [''phone'' \<mapsto> ph, ''createdAt'' \<mapsto> c, ''updatedAt'' \<mapsto> Iso u]) = Map.empty"
  then have "stored (data ++ [''phone'' \<mapsto> ph, ''createdAt'' \<mapsto> c, ''updatedAt'' \<mapsto> Iso u])
                ''updatedAt'' = None"
    by simp
  then show False by (simp add: stored_def)
qed

lemma fetch_no_delete: "store_rel no_delete (fetchUserProfile uid)"
  unfolding store_rel_def no_delete_def using fetch_only_fills by simp

lemma fetch_same_createdAt: "store_rel same_createdAt (fetchUserProfile uid)"
  unfolding store_rel_def same_createdAt_def
proof (intro allI impI)
  fix w :: world and p
  assume "users_db w p ''createdAt'' \<noteq> None"
  then have "users_db w p \<noteq> Map.empty" by auto
  then show "users_db (snd (fetchUserProfile uid w)) p ''createdAt'' = users_db w p ''createdAt''"
    by (simp add: fetch_only_fills)
qed

lemma update_no_delete: "store_rel no_delete (updateUserProfile uid data)"
  unfolding store_rel_def no_delete_def
proof (intro allI impI)
  fix w :: world and p
  assume a: "users_db w p \<noteq> Map.empty"
  show "users_db (snd (updateUserProfile uid data w)) p \<noteq> Map.empty"
    using update_store [of uid data w] a merged_updatedAt
    by (cases "p = users_path uid") auto
qed

lemma update_absent:
  assumes "data k = None" and "k \<noteq> ''updatedAt''"
  shows "users_db (snd (updateUserProfile uid data w)) p k = users_db w p k"
proof -
  have m: "merged old (data ++ [''updatedAt'' \<mapsto> Iso t]) k = old k" for old t
    using assms by (simp add: merged_def map_add_def)
  show ?thesis
    using update_store [of uid data w] m
    by (cases "p = users_path uid") auto
qed

lemma update_same_createdAt:
  assumes "data ''createdAt'' = None"
  shows "store_rel same_createdAt (updateUserProfile uid data)"
  unfolding store_rel_def same_createdAt_def
  using assms by (simp add: update_absent)

lemma create_no_delete: "store_rel no_delete (createUserProfile uid data)"
  unfolding store_rel_def no_delete_def
proof (intro allI impI)
  fix w :: world and p
  assume a: "users_db w p \<noteq> Map.empty"
  show "users_db (snd (createUserProfile uid data w)) p \<noteq> Map.empty"
    using create_store [of uid data w] a stored_updatedAt
    by (cases "p = users_path uid") auto
qed

subsection \<open>The context\<close>

lemma listener_rel:
  assumes "preorder_rel R" and "\<And>uid. store_rel R (fetchUserProfile uid)"
  shows "store_rel R (onAuthStateChanged usr)"
  unfolding onAuthStateChanged_def authStateTry_def authStateCatch_def
  using assms by (cases usr) (simp_all add: store_rel_intros)

lemma login_rel:
  assumes "preorder_rel R" and "\<And>uid. store_rel R (fetchUserProfile uid)"
  shows "store_rel R (login email password)"
  unfolding login_def signInWithEmailAndPassword_def
  using assms by (intro store_rel_intros) simp_all

lemma register_rel:
  assumes "preorder_rel R" and "\<And>uid. store_rel R (fetchUserProfile uid)"
    and "\<And>uid data. store_rel R (createUserProfile uid data)"
  shows "store_rel R (register email password name)"
  unfolding register_def createUserWithEmailAndPassword_def
  using assms by (intro store_rel_intros) simp_all

lemma googleSignIn_rel:
  assumes "preorder_rel R" and "\<And>uid. store_rel R (fetchUserProfile uid)"
    and "\<And>uid data. store_rel R (createUserProfile uid data)"
  shows "store_rel R googleSignIn"
  unfolding googleSignIn_def signInWithPopup_def
  using assms by (intro store_rel_intros) simp_all

lemma logout_rel:
  assumes "preorder_rel R"
  shows "store_rel R logout"
  unfolding logout_def signOut_def
  using assms by (intro store_rel_intros) simp_all

lemma resetPassword_rel:
  assumes "preorder_rel R"
  shows "store_rel R (resetPassword email)"
  unfolding resetPassword_def sendPasswordResetEmail_def
  using assms by (intro store_rel_intros) simp_all

lemma updatePassword_same:
  "users_db (snd (updatePassword currentPassword newPassword w)) = users_db w"
  by (simp add: updatePassword_def reauthenticateWithCredential_def firebaseUpdatePassword_def
        task_defs Let_def split: option.splits)

lemma updateProfile_rel:
  assumes "preorder_rel R" and "\<And>uid. store_rel R (fetchUserProfile uid)"
    and "\<And>uid. store_rel R (updateUserProfile uid data)"
  shows "store_rel R (updateProfile data)"
  unfolding store_rel_def
proof
  fix w
  show "R (users_db w) (users_db (snd (updateProfile data w)))"
  proof (cases "currentUser w")
    case None
    then show ?thesis
      using assms(1) by (simp add: updateProfile_def throw_task_def preorder_rel_def)
  next
    case (Some cu)
    have "store_rel R (try_catch
            (then_task (updateUserProfile (user_uid cu) data)
            (bind_task (fetchUserProfile (user_uid cu)) (\<lambda>updatedProfile.
             then_task (setUserProfile_if updatedProfile)
               (toast_success ''Profile updated successfully!''))))
            (\<lambda>error.
             then_task (console_error ''Profile update error:'' error)
            (then_task
               (\<lambda>w'. if \<not> isOffline w' then toast_error ''Failed to update profile'' w'
                     else return_task () w')
               (throw_task error))))"
      using assms by (intro store_rel_intros) simp_all
    then show ?thesis using Some by (simp add: updateProfile_def store_rel_def)
  qed
qed

lemma perform_no_delete: "no_delete (users_db w) (users_db (perform x w))"
proof -
  note f = fetch_no_delete and u = update_no_delete and c = create_no_delete
    and p = preorder_no_delete
  have r: "store_rel no_delete m \<Longrightarrow> no_delete (users_db w) (users_db (snd (m w)))"
    for m :: "unit task"
    by (simp add: store_rel_def)
  show ?thesis
  proof (cases x)
    case (FetchUserProfile uid)
    then show ?thesis using f [of uid] by (simp add: store_rel_def)
  next
    case (UpdateUserProfile uid data)
    then show ?thesis using u r by simp
  next
    case (CreateUserProfile uid data)
    then show ?thesis using c r by simp
  next
    case (AuthStateChanged usr)
    then show ?thesis using listener_rel [OF p f] r by simp
  next
    case Online
    then show ?thesis using store_rel_prims(13) [OF p] r by (simp add: handleOnline_def)
  next
    case Offline
    then show ?thesis using store_rel_prims(13) [OF p] r by (simp add: handleOffline_def)
  next
    case (Login email password)
    then show ?thesis using login_rel [OF p f] r by simp
  next
    case (Register email password name)
    then show ?thesis using register_rel [OF p f c] r by simp
  next
    case Logout
    then show ?thesis using logout_rel [OF p] r by simp
  next
    case (UpdateProfile data)
    then show ?thesis using updateProfile_rel [OF p f u] r by simp
  next
    case (UpdatePassword currentPassword newPassword)
    then show ?thesis using p by (simp add: updatePassword_same preorder_rel_def)
  next
    case GoogleSignIn
    then show ?thesis using googleSignIn_rel [OF p f c] r by simp
  next
    case (ResetPassword email)
    then show ?thesis using resetPassword_rel [OF p] r by simp
  qed
qed

lemma perform_same_createdAt:
  assumes "merges_only x"
  shows "same_createdAt (users_db w) (users_db (perform x w))"
proof -
  note f = fetch_same_createdAt and u = update_same_createdAt
    and p = preorder_same_createdAt
  have r: "store_rel same_createdAt m \<Longrightarrow> same_createdAt (users_db w) (users_db (snd (m w)))"
    for m :: "unit task"
    by (simp add: store_rel_def)
  show ?thesis
  proof (cases x)
    case (FetchUserProfile uid)
    then show ?thesis using f [of uid] by (simp add: store_rel_def)
  next
    case (UpdateUserProfile uid data)
    then show ?thesis using u r assms by simp
  next
    case (CreateUserProfile uid data)
    then show ?thesis using assms by simp
  next
    case (AuthStateChanged usr)
    then show ?thesis using listener_rel [OF p f] r by simp
  next
    case Online
    then show ?thesis using store_rel_prims(13) [OF p] r by (simp add: handleOnline_def)
  next
    case Offline
    then show ?thesis using store_rel_prims(13) [OF p] r by (simp add: handleOffline_def)
  next
    case (Login email password)
    then show ?thesis using login_rel [OF p f] r by simp
  next
    case (Register email password name)
    then show ?thesis using assms by simp
  next
    case Logout
    then show ?thesis using logout_rel [OF p] r by simp
  next
    case (UpdateProfile data)
    then show ?thesis using updateProfile_rel [OF p f u] r assms by simp
  next
    case (UpdatePassword currentPassword newPassword)
    then show ?thesis using p by (simp add: updatePassword_same preorder_rel_def)
  next
    case GoogleSignIn
    then show ?thesis using assms by simp
  next
    case (ResetPassword email)
    then show ?thesis using resetPassword_rel [OF p] r by simp
  qed
qed

lemma perform_all_no_delete: "no_delete (users_db w) (users_db (perform_all xs w))"
proof (induction xs arbitrary: w)
  case Nil
  then show ?case by (simp add: no_delete_def)
next
  case (Cons x xs)
  have "no_delete (users_db w) (users_db (perform x w))" by (rule perform_no_delete)
  moreover have "no_delete (users_db (perform x w)) (users_db (perform_all xs (perform x w)))"
    by (rule Cons.IH)
  ultimately show ?case by (simp add: no_delete_def)
qed

lemma perform_all_same_createdAt:
  "list_all merges_only xs \<Longrightarrow> same_createdAt (users_db w) (users_db (perform_all xs w))"
proof (induction xs arbitrary: w)
  case Nil
  then show ?case by (simp add: same_createdAt_def)
next
  case (Cons x xs)
  have "same_createdAt (users_db w) (users_db (perform x w))"
    using Cons.prems by (simp add: perform_same_createdAt)
  moreover have "same_createdAt (users_db (perform x w)) (users_db (perform_all xs (perform x w)))"
    using Cons.prems by (intro Cons.IH) simp
  ultimately show ?case by (simp add: same_createdAt_def)
qed

lemma fetch_keeps_existing:
  "users_db w (users_path uid) \<noteq> Map.empty \<Longrightarrow>
   users_db (snd (fetchUserProfile uid w)) = users_db w"
  by (simp add: fetchUserProfile_def task_defs Let_def split: option.splits)

lemma register_createdAt:
  assumes "faults w (length (calls w)) = None"
    and "faults w (Suc (length (calls w))) = None"
    and "ref_fault w (users_path (user_uid (identity w (length (calls w))))) = None"
  shows "users_db (snd (register email password name w))
            (users_path (user_uid (identity w (length (calls w))))) ''createdAt''
          = Some (Iso (clock w (Suc (reads w))))"
proof -
  let ?u = "identity w (length (calls w))"
  let ?w1 = "w\<lparr>calls := calls w @ [CreateUserWithEmailAndPassword email password]\<rparr>"
  let ?w2 = "?w1\<lparr>reads := Suc (reads w)\<rparr>"
  let ?data = "[''name'' \<mapsto> Str name, ''email'' \<mapsto> Str email,
              ''phone'' \<mapsto> Str '''', ''createdAt'' \<mapsto> Iso (clock w (reads w))]"
  let ?w3 = "snd (createUserProfile (user_uid ?u) ?data ?w2)"
  have c1: "fst (createUserProfile (user_uid ?u) ?data ?w2) = Inr ()"
    using assms by (intro create_ok) simp_all
  have c2: "users_db ?w3 (users_path (user_uid ?u)) ''createdAt''
              = Some (Iso (clock w (Suc (reads w))))"
    using assms by (subst create_ok) (simp_all add: stored_def)
  have c3: "users_db ?w3 (users_path (user_uid ?u)) \<noteq> Map.empty"
    using c2 by auto
  have f: "users_db (snd (fetchUserProfile (user_uid ?u) ?w3)) = users_db ?w3"
    using c3 by (rule fetch_keeps_existing)
  obtain r where r: "fst (fetchUserProfile (user_uid ?u) ?w3) = Inr r"
    using fetch_returns by blast
  have "users_db (snd (register email password name w)) = users_db ?w3"
    using assms(1) c1 r f
    by (simp add: register_def bind_task_alt try_catch_alt then_task_def
        createUserWithEmailAndPassword_def remote_user_def remote_def Let_def
        new_Date_toISOString_def setUserProfile_if_def setUserProfile_def return_task_def
        toast_success_def split: option.splits)
  then show ?thesis using c2 by simp
qed

subsection \<open>updateProfile and googleSignIn on the store\<close>

lemma update_ok_nonempty:
  assumes "fst (updateUserProfile uid data w) = Inr ()"
  shows "users_db (snd (updateUserProfile uid data w)) (users_path uid) \<noteq> Map.empty"
proof -
  have "users_db (snd (updateUserProfile uid data w)) (users_path uid) =
          merged (users_db w (users_path uid))
            (data ++ [''updatedAt'' \<mapsto> Iso (clock w (reads w))])"
    using assms
    by (simp add: updateUserProfile_def task_defs Let_def split: option.splits)
  then show ?thesis using merged_updatedAt by simp
qed

lemma updateProfile_store:
  "users_db (snd (updateProfile data w)) =
     (case currentUser w of
        None \<Rightarrow> users_db w
      | Some cu \<Rightarrow> users_db (snd (updateUserProfile (user_uid cu) data w)))"
proof (cases "currentUser w")
  case None
  then show ?thesis by (simp add: updateProfile_def throw_task_def)
next
  case (Some cu)
  let ?up = "updateUserProfile (user_uid cu) data w"
  show ?thesis
  proof (cases "fst ?up")
    case (Inl e)
    then show ?thesis
      using Some
      by (simp add: updateProfile_def try_catch_alt bind_task_alt then_task_def
          console_error_def toast_error_def return_task_def throw_task_def)
  next
    case (Inr x)
    then have ok: "fst ?up = Inr ()" by simp
    have k: "users_db (snd (fetchUserProfile (user_uid cu) (snd ?up))) = users_db (snd ?up)"
      using update_ok_nonempty [OF ok] by (rule fetch_keeps_existing)
    obtain r where r: "fst (fetchUserProfile (user_uid cu) (snd ?up)) = Inr r"
      using fetch_returns by blast
    show ?thesis
      using Some ok r k
      by (simp add: updateProfile_def try_catch_alt bind_task_alt then_task_def
          setUserProfile_if_def setUserProfile_def toast_success_def return_task_def
          split: option.splits)
  qed
qed

lemma updateProfile_absent:
  assumes "data k = None" and "k \<noteq> ''updatedAt''"
  shows "users_db (snd (updateProfile data w)) p k = users_db w p k"
  using assms by (simp add: updateProfile_store update_absent split: option.splits)

lemma googleSignIn_createdAt:
  assumes "faults w (length (calls w)) = None"
    and "faults w (Suc (length (calls w))) = None"
    and "ref_fault w (users_path (user_uid (identity w (length (calls w))))) = None"
  shows "users_db (snd (googleSignIn w))
            (users_path (user_uid (identity w (length (calls w))))) ''createdAt''
          = Some (Iso (clock w (reads w)))"
proof -
  let ?u = "identity w (length (calls w))"
  let ?w1 = "w\<lparr>calls := calls w @ [SignInWithPopup]\<rparr>"
  let ?data = "[''name'' \<mapsto> js_or (nullable (user_displayName ?u)) Undefined,
              ''email'' \<mapsto> nullable (user_email ?u),
              ''phone'' \<mapsto> Str '''',
              ''photoURL'' \<mapsto> js_or (nullable (user_photoURL ?u)) Undefined]"
  let ?w2 = "snd (createUserProfile (user_uid ?u) ?data ?w1)"
  have c1: "fst (createUserProfile (user_uid ?u) ?data ?w1) = Inr ()"
    using assms by (intro create_ok) simp_all
  have c2: "users_db ?w2 (users_path (user_uid ?u)) ''createdAt''
              = Some (Iso (clock w (reads w)))"
    using assms by (subst create_ok) (simp_all add: stored_def)
  have c3: "users_db ?w2 (users_path (user_uid ?u)) \<noteq> Map.empty"
    using c2 by auto
  have f: "users_db (snd (fetchUserProfile (user_uid ?u) ?w2)) = users_db ?w2"
    using c3 by (rule fetch_keeps_existing)
  obtain r where r: "fst (fetchUserProfile (user_uid ?u) ?w2) = Inr r"
    using fetch_returns by blast
  have "users_db (snd (googleSignIn w)) = users_db ?w2"
    using assms(1) c1 r f
    by (simp add: googleSignIn_def bind_task_alt try_catch_alt then_task_def
        signInWithPopup_def remote_user_def remote_def Let_def
        setUserProfile_if_def setUserProfile_def return_task_def
        toast_success_def split: option.splits)
  then show ?thesis using c2 by simp
qed

section \<open>fetchUserProfile on a missing record\<close>

text \<open>
  Claim C1. When the user id has no profile record, the store answers the read and the
  write, and the clock does not run backwards between its two readings,
  \<open>fetchUserProfile\<close> returns a profile whose id is the requested one, whose email and
  phone are the empty string (so neither is undefined) and whose createdAt and updatedAt
  are the two clock readings, createdAt no later than updatedAt; the record it stores
  is that profile without the id, and no other record changes.
\<close>

theorem fetch_creates_default:
  assumes "users_db w (users_path uid) = Map.empty"
    and "ref_fault w (users_path uid) = None"
    and "faults w (length (calls w)) = None"
    and "faults w (Suc (length (calls w))) = None"
    and "clock w (reads w) \<le> clock w (Suc (reads w))"
  shows "\<exists>p w' c u. fetchUserProfile uid w = (Inr (Some p), w')
     \<and> p ''id'' = Some (Str uid) \<and> p ''email'' = Some (Str '''') \<and> p ''phone'' = Some (Str '''')
     \<and> p ''createdAt'' = Some (Iso c) \<and> p ''updatedAt'' = Some (Iso u)
     \<and> c = clock w (reads w) \<and> u = clock w (Suc (reads w)) \<and> c \<le> u
     \<and> users_db w' (users_path uid) = p(''id'' := None)
     \<and> (\<forall>q. q \<noteq> users_path uid \<longrightarrow> users_db w' q = users_db w q)
     \<and> toasts w' = toasts w"
  using assms
  by (simp add: fetchUserProfile_def task_defs Let_def stored_default)

theorem fetch_creates_default_witness:
  "users_db initial_world (users_path ''u1'') = Map.empty
   \<and> ref_fault initial_world (users_path ''u1'') = None
   \<and> faults initial_world (length (calls initial_world)) = None
   \<and> faults initial_world (Suc (length (calls initial_world))) = None
   \<and> clock initial_world (reads initial_world) \<le> clock initial_world (Suc (reads initial_world))
   \<and> result_prop (fetchUserProfile ''u1'' initial_world) ''id'' = Some (Str ''u1'')
   \<and> result_prop (fetchUserProfile ''u1'' initial_world) ''email'' = Some (Str '''')
   \<and> result_prop (fetchUserProfile ''u1'' initial_world) ''createdAt'' = Some (Iso 1000)
   \<and> result_prop (fetchUserProfile ''u1'' initial_world) ''updatedAt'' = Some (Iso 1001)
   \<and> users_db (snd (fetchUserProfile ''u1'' initial_world)) ''users/u1'' ''phone'' = Some (Str '''')"
  using fetch_creates_default [of initial_world "''u1''"]
  by (auto simp add: world_defs result_prop_def)

section \<open>updateUserProfile: frame and timestamp\<close>

text \<open>
  Claim C2, as the code has it. When the store accepts the write,
  \<open>updateUserProfile uid {name: X}\<close> leaves every field of the stored record other than
  name and updatedAt as it was (email and createdAt among them), stores the name, and
  sets updatedAt to the clock reading of the call, whatever the record held before: the
  stored updatedAt is never read. So the new updatedAt is no earlier than the previous
  one when the previous one is a timestamp not later than that reading. No other record
  changes.
\<close>

theorem update_name_frame:
  assumes "ref_fault w (users_path uid) = None"
    and "faults w (length (calls w)) = None"
  shows "\<exists>w'. updateUserProfile uid [''name'' \<mapsto> Str X] w = (Inr (), w')
     \<and> (\<forall>k. k \<noteq> ''name'' \<and> k \<noteq> ''updatedAt'' \<longrightarrow>
            users_db w' (users_path uid) k = users_db w (users_path uid) k)
     \<and> users_db w' (users_path uid) ''email'' = users_db w (users_path uid) ''email''
     \<and> users_db w' (users_path uid) ''createdAt'' = users_db w (users_path uid) ''createdAt''
     \<and> users_db w' (users_path uid) ''name'' = Some (Str X)
     \<and> users_db w' (users_path uid) ''updatedAt'' = Some (Iso (clock w (reads w)))
     \<and> (\<forall>t0. users_db w (users_path uid) ''updatedAt'' = Some (Iso t0)
              \<and> t0 \<le> clock w (reads w) \<longrightarrow>
            (\<exists>t1. users_db w' (users_path uid) ''updatedAt'' = Some (Iso t1) \<and> t0 \<le> t1))
     \<and> (\<forall>q. q \<noteq> users_path uid \<longrightarrow> users_db w' q = users_db w q)"
  using assms
  by (simp add: updateUserProfile_def task_defs Let_def merged_def)

theorem update_name_frame_witness:
  "ref_fault registered_world (users_path ''u1'') = None
   \<and> faults registered_world (length (calls registered_world)) = None
   \<and> users_db registered_world (users_path ''u1'') ''updatedAt'' = Some (Iso 20)
   \<and> 20 \<le> clock registered_world (reads registered_world)
   \<and> fst (updateUserProfile ''u1'' [''name'' \<mapsto> Str ''X''] registered_world) = Inr ()
   \<and> users_db (snd (updateUserProfile ''u1'' [''name'' \<mapsto> Str ''X''] registered_world))
        (users_path ''u1'') ''name'' = Some (Str ''X'')
   \<and> users_db (snd (updateUserProfile ''u1'' [''name'' \<mapsto> Str ''X''] registered_world))
        (users_path ''u1'') ''email'' = Some (Str ''a@x.com'')
   \<and> users_db (snd (updateUserProfile ''u1'' [''name'' \<mapsto> Str ''X''] registered_world))
        (users_path ''u1'') ''phone'' = Some (Str ''555'')
   \<and> users_db (snd (updateUserProfile ''u1'' [''name'' \<mapsto> Str ''X''] registered_world))
        (users_path ''u1'') ''createdAt'' = Some (Iso 10)
   \<and> users_db (snd (updateUserProfile ''u1'' [''name'' \<mapsto> Str ''X''] registered_world))
        (users_path ''u1'') ''updatedAt'' = Some (Iso 1000)
   \<and> (\<exists>t1. users_db (snd (updateUserProfile ''u1'' [''name'' \<mapsto> Str ''X''] registered_world))
        (users_path ''u1'') ''updatedAt'' = Some (Iso t1) \<and> 20 \<le> t1)"
proof -
  let ?w' = "snd (updateUserProfile ''u1'' [''name'' \<mapsto> Str ''X''] registered_world)"
  have h: "ref_fault registered_world (users_path ''u1'') = None"
    "faults registered_world (length (calls registered_world)) = None"
    by (simp_all add: world_defs)
  have e1: "users_db registered_world (users_path ''u1'') ''email'' = Some (Str ''a@x.com'')"
    and e2: "users_db registered_world (users_path ''u1'') ''phone'' = Some (Str ''555'')"
    and e3: "users_db registered_world (users_path ''u1'') ''createdAt'' = Some (Iso 10)"
    and e4: "users_db registered_world (users_path ''u1'') ''updatedAt'' = Some (Iso 20)"
    and e5: "clock registered_world (reads registered_world) = 1000"
    and e6: "''phone'' \<noteq> ''name'' \<and> ''phone'' \<noteq> ''updatedAt''"
    by (simp_all add: world_defs)
  have le: "20 \<le> clock registered_world (reads registered_world)"
    by (simp add: e5)
  have g: "\<exists>w'. m = (Inr (), w') \<and> P w' \<Longrightarrow> fst m = Inr () \<and> P (snd m)"
    for m :: "(jserror + unit) \<times> world" and P
    by auto
  note t = g [OF update_name_frame [OF h, of "''X''"]]
  note r = t [THEN conjunct1]
  note c = t [THEN conjunct2]
  note f = c [THEN conjunct1]
  note p1 = c [THEN conjunct2, THEN conjunct1]
  note p2 = c [THEN conjunct2, THEN conjunct2, THEN conjunct1]
  note p3 = c [THEN conjunct2, THEN conjunct2, THEN conjunct2, THEN conjunct1]
  note p4 = c [THEN conjunct2, THEN conjunct2, THEN conjunct2, THEN conjunct2, THEN conjunct1]
  note o = c [THEN conjunct2, THEN conjunct2, THEN conjunct2, THEN conjunct2, THEN conjunct2,
      THEN conjunct1]
  have em: "users_db ?w' (users_path ''u1'') ''email'' = Some (Str ''a@x.com'')"
    using p1 by (simp only: e1)
  have ph: "users_db ?w' (users_path ''u1'') ''phone'' = Some (Str ''555'')"
    using f [rule_format, OF e6] by (simp only: e2)
  have cr: "users_db ?w' (users_path ''u1'') ''createdAt'' = Some (Iso 10)"
    using p2 by (simp only: e3)
  have up: "users_db ?w' (users_path ''u1'') ''updatedAt'' = Some (Iso 1000)"
    using p4 by (simp only: e5)
  note later = o [rule_format, OF conjI [OF e4 le]]
  show ?thesis
    by (intro conjI h e4 le r p3 em ph cr up later)
qed

text \<open>
  The claim as stated fails: Alice's record holds updatedAt 5000, the client's clock
  reads 1000, the update succeeds and the stored updatedAt is now 1000, earlier than
  the previous one.
\<close>

theorem update_lowers_updatedAt_counterexample:
  "users_db ahead_world (users_path ''u1'') ''updatedAt'' = Some (Iso 5000)
   \<and> fst (updateUserProfile ''u1'' name_data ahead_world) = Inr ()
   \<and> users_db (snd (updateUserProfile ''u1'' name_data ahead_world)) (users_path ''u1'')
        ''updatedAt'' = Some (Iso 1000)
   \<and> (1000 :: nat) < 5000"
  by (simp add: updateUserProfile_def task_defs Let_def merged_def name_data_def
        ahead_world_def world_defs)

section \<open>Guards of the context operations\<close>

text \<open>
  Claim C4. With no authenticated identity, \<open>updateProfile\<close> throws the error
  "No user logged in" and leaves the whole world as it was: nothing is written to the
  store, no remote call is made and nothing is shown.
\<close>

theorem updateProfile_no_user:
  assumes "currentUser w = None"
  shows "updateProfile data w = (Inl (Error ''No user logged in'' None), w)"
  using assms by (simp add: updateProfile_def throw_task_def)

theorem updateProfile_no_user_witness:
  "currentUser initial_world = None
   \<and> updateProfile [''name'' \<mapsto> Str ''X''] initial_world
       = (Inl (Error ''No user logged in'' None), initial_world)"
proof -
  have h: "currentUser initial_world = None" by (simp add: initial_world_def)
  show ?thesis using h updateProfile_no_user [OF h] by simp
qed

text \<open>
  Claim C8. When nobody is signed in, or the signed-in user has no email (null or the
  empty string), \<open>updatePassword\<close> throws the error "No user logged in" and leaves the
  whole world as it was, so neither the re-authentication nor the password change is
  attempted.
\<close>

theorem updatePassword_no_email:
  assumes "currentUser w = None
     \<or> (\<exists>cu. currentUser w = Some cu \<and> (user_email cu = None \<or> user_email cu = Some ''''))"
  shows "updatePassword currentPassword newPassword w
       = (Inl (Error ''No user logged in'' None), w)"
  using assms by (auto simp add: updatePassword_def throw_task_def)

theorem updatePassword_no_email_witness:
  "currentUser (initial_world\<lparr>currentUser := Some (alice\<lparr>user_email := None\<rparr>)\<rparr>)
     = Some (alice\<lparr>user_email := None\<rparr>)
   \<and> user_email (alice\<lparr>user_email := None\<rparr>) = None
   \<and> updatePassword ''old'' ''new'' (initial_world\<lparr>currentUser := Some (alice\<lparr>user_email := None\<rparr>)\<rparr>)
       = (Inl (Error ''No user logged in'' None),
          initial_world\<lparr>currentUser := Some (alice\<lparr>user_email := None\<rparr>)\<rparr>)
   \<and> calls (snd (updatePassword ''old'' ''new''
        (initial_world\<lparr>currentUser := Some (alice\<lparr>user_email := None\<rparr>)\<rparr>))) = []"
proof -
  let ?w = "initial_world\<lparr>currentUser := Some (alice\<lparr>user_email := None\<rparr>)\<rparr>"
  have h: "currentUser ?w = None
     \<or> (\<exists>cu. currentUser ?w = Some cu \<and> (user_email cu = None \<or> user_email cu = Some ''''))"
    by simp
  have c: "calls ?w = []" by (simp add: initial_world_def)
  show ?thesis using updatePassword_no_email [OF h, of "''old''" "''new''"] c by simp
qed

section \<open>login with rejected credentials\<close>

text \<open>
  Claim C7. When the identity provider rejects the sign-in with an error \<open>e\<close>,
  \<open>login\<close> throws that same error to its caller, shows one failure notification (the
  network message when the error code is auth/network-request-failed, "Failed to login"
  otherwise) and leaves userProfile and the store as they were; the sign-in is the only
  remote call.
\<close>

theorem login_rejected:
  assumes "faults w (length (calls w)) = Some e"
  shows "\<exists>w'. login email password w = (Inl e, w')
     \<and> userProfile w' = userProfile w
     \<and> toasts w' = toasts w @ [ToastError
          (if err_code e = Some ''auth/network-request-failed''
           then ''Network error. Please check your connection.'' else ''Failed to login'')]
     \<and> users_db w' = users_db w
     \<and> calls w' = calls w @ [SignInWithEmailAndPassword email password]"
  using assms
  by (simp add: login_def signInWithEmailAndPassword_def remote_user_def task_defs Let_def)

theorem login_rejected_witness:
  "faults (registered_world\<lparr>faults := (\<lambda>_. Some wrong_password)\<rparr>)
      (length (calls (registered_world\<lparr>faults := (\<lambda>_. Some wrong_password)\<rparr>)))
     = Some wrong_password
   \<and> fst (login ''a@x.com'' ''bad'' (registered_world\<lparr>faults := (\<lambda>_. Some wrong_password)\<rparr>))
       = Inl wrong_password
   \<and> toasts (snd (login ''a@x.com'' ''bad'' (registered_world\<lparr>faults := (\<lambda>_. Some wrong_password)\<rparr>)))
       = [ToastError ''Failed to login'']
   \<and> userProfile (snd (login ''a@x.com'' ''bad''
        (registered_world\<lparr>faults := (\<lambda>_. Some wrong_password)\<rparr>))) = None"
proof -
  let ?w = "registered_world\<lparr>faults := (\<lambda>_. Some wrong_password)\<rparr>"
  have h: "faults ?w (length (calls ?w)) = Some wrong_password" by simp
  have c: "toasts ?w = []" "userProfile ?w = None" "err_code wrong_password = Some ''auth/wrong-password''"
    by (simp_all add: world_defs wrong_password_def)
  from login_rejected [OF h, of "''a@x.com''" "''bad''"] obtain w' where
    r: "login ''a@x.com'' ''bad'' ?w = (Inl wrong_password, w')"
    and p: "userProfile w' = userProfile ?w"
      "toasts w' = toasts ?w @ [ToastError
          (if err_code wrong_password = Some ''auth/network-request-failed''
           then ''Network error. Please check your connection.'' else ''Failed to login'')]"
    by blast
  show ?thesis using h c p by (simp add: r)
qed

section \<open>fetchUserProfile never throws\<close>

text \<open>
  Claim C9. Whatever the id, the store and the services do, \<open>fetchUserProfile\<close> returns
  and does not throw; when \<open>ref\<close>, the read or the write of the default record fails,
  what it returns is null. So the \<open>try\<close> block of the auth-state listener never throws
  either, and the listener behaves the same with any \<open>catch\<close> handler in place of its
  own: that handler is unreachable.
\<close>

theorem fetch_never_throws:
  "(\<exists>r w'. fetchUserProfile uid w = (Inr r, w'))
   \<and> ((ref_fault w (users_path uid) \<noteq> None \<or> faults w (length (calls w)) \<noteq> None
        \<or> (users_db w (users_path uid) = Map.empty \<and> faults w (Suc (length (calls w))) \<noteq> None))
       \<longrightarrow> fst (fetchUserProfile uid w) = Inr None)
   \<and> (\<exists>w'. authStateTry u w = (Inr (), w'))
   \<and> (\<forall>h. try_catch (authStateTry u) h w = authStateTry u w)"
  by (auto simp add: fetchUserProfile_def authStateTry_def setUserProfile_if_def
        setUserProfile_def task_defs Let_def split: option.splits)

theorem fetch_never_throws_witness:
  "faults offline_world (length (calls offline_world)) \<noteq> None
   \<and> fst (fetchUserProfile ''u1'' offline_world) = Inr None
   \<and> try_catch (authStateTry alice) authStateCatch offline_world = authStateTry alice offline_world"
proof -
  have h: "faults offline_world (length (calls offline_world)) \<noteq> None"
    by (simp add: world_defs)
  show ?thesis
    using h fetch_never_throws [of "''u1''" offline_world alice] by blast
qed

section \<open>Timestamps supplied by the caller\<close>

text \<open>
  Claim C10. When the store accepts the write, whatever the partial data holds,
  \<open>updateUserProfile\<close> stores as updatedAt the clock reading of the call, and
  \<open>createUserProfile\<close> stores its own two clock readings as createdAt and updatedAt,
  also when the data supplies these fields; it stores the empty string as phone when the
  data has no phone or an empty one. \<open>register\<close> passes a createdAt of its own, and the
  record it leaves holds the later reading taken inside \<open>createUserProfile\<close> instead.
\<close>

theorem timestamps_overridden:
  assumes "ref_fault w (users_path uid) = None"
    and "faults w (length (calls w)) = None"
  shows "fst (updateUserProfile uid data w) = Inr ()
     \<and> users_db (snd (updateUserProfile uid data w)) (users_path uid) ''updatedAt''
         = Some (Iso (clock w (reads w)))
     \<and> fst (createUserProfile uid data w) = Inr ()
     \<and> users_db (snd (createUserProfile uid data w)) (users_path uid) ''createdAt''
         = Some (Iso (clock w (reads w)))
     \<and> users_db (snd (createUserProfile uid data w)) (users_path uid) ''updatedAt''
         = Some (Iso (clock w (Suc (reads w))))
     \<and> (data ''phone'' = None \<or> data ''phone'' = Some (Str '''') \<longrightarrow>
          users_db (snd (createUserProfile uid data w)) (users_path uid) ''phone''
            = Some (Str ''''))
     \<and> (faults w (Suc (length (calls w))) = None
          \<and> ref_fault w (users_path (user_uid (identity w (length (calls w))))) = None \<longrightarrow>
          users_db (snd (register email password name w))
            (users_path (user_uid (identity w (length (calls w))))) ''createdAt''
          = Some (Iso (clock w (Suc (reads w)))))"
proof -
  have u: "fst (updateUserProfile uid data w) = Inr ()
     \<and> users_db (snd (updateUserProfile uid data w)) (users_path uid) ''updatedAt''
         = Some (Iso (clock w (reads w)))"
    using assms by (simp add: updateUserProfile_def task_defs Let_def merged_def)
  have c: "fst (createUserProfile uid data w) = Inr ()
     \<and> users_db (snd (createUserProfile uid data w)) (users_path uid) ''createdAt''
         = Some (Iso (clock w (reads w)))
     \<and> users_db (snd (createUserProfile uid data w)) (users_path uid) ''updatedAt''
         = Some (Iso (clock w (Suc (reads w))))"
    using assms by (simp add: create_ok stored_def)
  have p: "data ''phone'' = None \<or> data ''phone'' = Some (Str '''') \<longrightarrow>
          users_db (snd (createUserProfile uid data w)) (users_path uid) ''phone''
            = Some (Str '''')"
    using assms by (auto simp add: create_ok stored_def js_or_def js_prop_def)
  have r: "faults w (Suc (length (calls w))) = None
          \<and> ref_fault w (users_path (user_uid (identity w (length (calls w))))) = None \<longrightarrow>
          users_db (snd (register email password name w))
            (users_path (user_uid (identity w (length (calls w))))) ''createdAt''
          = Some (Iso (clock w (Suc (reads w))))"
    using assms(2) register_createdAt by blast
  show ?thesis using u c p r by blast
qed

theorem timestamps_overridden_witness:
  "ref_fault initial_world (users_path ''u1'') = None
   \<and> faults initial_world (length (calls initial_world)) = None
   \<and> users_db (snd (updateUserProfile ''u1''
         [''name'' \<mapsto> Str ''Alice'', ''createdAt'' \<mapsto> Iso 5, ''updatedAt'' \<mapsto> Iso 6]
         initial_world)) (users_path ''u1'') ''updatedAt''
       = Some (Iso (clock initial_world (reads initial_world)))
   \<and> users_db (snd (createUserProfile ''u1''
         [''name'' \<mapsto> Str ''Alice'', ''createdAt'' \<mapsto> Iso 5, ''updatedAt'' \<mapsto> Iso 6]
         initial_world)) (users_path ''u1'') ''createdAt''
       = Some (Iso (clock initial_world (reads initial_world)))
   \<and> users_db (snd (createUserProfile ''u1''
         [''name'' \<mapsto> Str ''Alice'', ''createdAt'' \<mapsto> Iso 5, ''updatedAt'' \<mapsto> Iso 6]
         initial_world)) (users_path ''u1'') ''phone'' = Some (Str '''')
   \<and> clock initial_world (reads initial_world) = 1000
   \<and> faults initial_world (Suc (length (calls initial_world))) = None
   \<and> user_uid (identity initial_world (length (calls initial_world))) = ''u1''
   \<and> users_db (snd (register ''a@x.com'' ''pw123456'' ''Alice'' initial_world))
         (users_path (user_uid (identity initial_world (length (calls initial_world)))))
         ''createdAt''
       = Some (Iso (clock initial_world (Suc (reads initial_world))))
   \<and> clock initial_world (Suc (reads initial_world)) = 1001"
proof -
  let ?data = "[''name'' \<mapsto> Str ''Alice'', ''createdAt'' \<mapsto> Iso 5, ''updatedAt'' \<mapsto> Iso 6]"
  have h: "ref_fault initial_world (users_path ''u1'') = None"
    "faults initial_world (length (calls initial_world)) = None"
    by (simp_all add: world_defs)
  have e: "?data ''phone'' = None" "clock initial_world (reads initial_world) = 1000"
    "faults initial_world (Suc (length (calls initial_world))) = None"
    "user_uid (identity initial_world (length (calls initial_world))) = ''u1''"
    "ref_fault initial_world
       (users_path (user_uid (identity initial_world (length (calls initial_world))))) = None"
    "clock initial_world (Suc (reads initial_world)) = 1001"
    by (simp_all add: world_defs)
  note t = timestamps_overridden [OF h, of ?data "''a@x.com''" "''pw123456''" "''Alice''"]
  show ?thesis
    using h e t by blast
qed

section \<open>fetchUserProfile on an existing record\<close>

lemma renamed_world_store:
  "users_db renamed_world ''users/u1'' ''id'' = Some (Str ''u2'')"
  "users_db renamed_world ''users/u1'' ''email'' = Some (Str ''a@x.com'')"
  "ref_fault renamed_world = (\<lambda>_. None)"
  "faults renamed_world = (\<lambda>_. None)"
  by (simp_all add: renamed_world_def id_data_def updateUserProfile_def task_defs Let_def
        merged_def world_defs)

text \<open>
  Claim C5, as the code has it. For an existing record that the store lets it read,
  \<open>fetchUserProfile\<close> returns every stored field unmodified and changes nothing in the
  store; the id of the returned profile is the stored id field when the record has one,
  and the requested id otherwise (the spread puts the stored fields after \<open>id: uid\<close>).
\<close>

theorem fetch_existing:
  assumes "users_db w (users_path uid) \<noteq> Map.empty"
    and "ref_fault w (users_path uid) = None"
    and "faults w (length (calls w)) = None"
  shows "\<exists>p w'. fetchUserProfile uid w = (Inr (Some p), w')
     \<and> (\<forall>k. k \<noteq> ''id'' \<longrightarrow> p k = users_db w (users_path uid) k)
     \<and> p ''id'' = (case users_db w (users_path uid) ''id'' of
                     None \<Rightarrow> Some (Str uid) | Some v \<Rightarrow> Some v)
     \<and> users_db w' = users_db w \<and> toasts w' = toasts w"
  using assms
  by (auto simp add: fetchUserProfile_def task_defs Let_def map_add_def split: option.splits)

theorem fetch_existing_witness:
  "users_db registered_world (users_path ''u1'') ''email'' = Some (Str ''a@x.com'')
   \<and> ref_fault registered_world (users_path ''u1'') = None
   \<and> faults registered_world (length (calls registered_world)) = None
   \<and> result_prop (fetchUserProfile ''u1'' registered_world) ''email'' = Some (Str ''a@x.com'')
   \<and> result_prop (fetchUserProfile ''u1'' registered_world) ''id'' = Some (Str ''u1'')
   \<and> toasts (snd (fetchUserProfile ''u1'' registered_world)) = []"
proof -
  have e: "users_db registered_world (users_path ''u1'') ''email'' = Some (Str ''a@x.com'')"
    "users_db registered_world (users_path ''u1'') ''id'' = None"
    "toasts registered_world = []"
    by (simp_all add: world_defs)
  have h: "users_db registered_world (users_path ''u1'') \<noteq> Map.empty"
    "ref_fault registered_world (users_path ''u1'') = None"
    "faults registered_world (length (calls registered_world)) = None"
    using e(1) by (auto simp add: world_defs)
  from fetch_existing [OF h] obtain p w' where
    r: "fetchUserProfile ''u1'' registered_world = (Inr (Some p), w')"
    and p: "p ''email'' = users_db registered_world (users_path ''u1'') ''email''"
      "p ''id'' = (case users_db registered_world (users_path ''u1'') ''id'' of
                     None \<Rightarrow> Some (Str ''u1'') | Some v \<Rightarrow> Some v)"
      "toasts w' = toasts registered_world"
    by auto
  show ?thesis using h e p by (simp add: r result_prop_def)
qed

text \<open>
  The claim as stated fails: after \<^verbatim>\<open>updateUserProfile("u1", {id: "u2"})\<close> the record of user u1
  exists and holds an id field, and a fetch for u1 returns a profile whose id is u2.
\<close>

theorem fetch_id_counterexample:
  "users_db renamed_world (users_path ''u1'') ''email'' = Some (Str ''a@x.com'')
   \<and> result_prop (fetchUserProfile ''u1'' renamed_world) ''id'' = Some (Str ''u2'')
   \<and> result_prop (fetchUserProfile ''u1'' renamed_world) ''id'' \<noteq> Some (Str ''u1'')"
proof -
  have s: "users_db renamed_world (users_path ''u1'') ''id'' = Some (Str ''u2'')"
    "users_db renamed_world (users_path ''u1'') ''email'' = Some (Str ''a@x.com'')"
    by (simp_all add: renamed_world_store users_path_def)
  have h: "users_db renamed_world (users_path ''u1'') \<noteq> Map.empty"
    "ref_fault renamed_world (users_path ''u1'') = None"
    "faults renamed_world (length (calls renamed_world)) = None"
    using s(1) by (auto simp add: renamed_world_store)
  have "result_prop (fetchUserProfile ''u1'' renamed_world) ''id'' = Some (Str ''u2'')"
    using h(2,3) s(1) h(1)
    by (auto simp add: result_prop_def fetchUserProfile_def task_defs Let_def map_add_def
        split: option.splits)
  then show ?thesis using s by simp
qed

section \<open>Failures while offline\<close>

text \<open>
  What the service does on a fetch that fails while the browser is offline: it shows its
  notification all the same. The guard on \<open>isOffline\<close> sits in the listener's handler,
  which is never reached.
\<close>

lemma fetch_offline_notifies:
  "fst (fetchUserProfile ''u1'' offline_world) = Inr None
   \<and> toasts (snd (fetchUserProfile ''u1'' offline_world)) = [ToastError ''Unable to load profile'']
   \<and> toasts (snd (onAuthStateChanged (Some alice) offline_world))
       = [ToastError ''Unable to load profile'']"
  by (simp add: fetchUserProfile_def onAuthStateChanged_def authStateTry_def
        setCurrentUser_def setLoading_def setUserProfile_if_def task_defs Let_def world_defs)

text \<open>
  Claim C3, as the code has it. A profile fetch that finds the store unreachable returns
  null and leaves the offline flag and the store as they were, so the flag remains true
  when it was set. The notification that the offline flag suppresses is the one of
  \<open>updateProfile\<close>: when its write fails, \<open>updateProfile\<close> rethrows the error and shows
  "Failed to update profile" exactly when the offline flag is not set.
\<close>

theorem offline_failures:
  "((ref_fault w (users_path uid) \<noteq> None \<or> faults w (length (calls w)) \<noteq> None) \<longrightarrow>
      fst (fetchUserProfile uid w) = Inr None
      \<and> isOffline (snd (fetchUserProfile uid w)) = isOffline w
      \<and> users_db (snd (fetchUserProfile uid w)) = users_db w)
   \<and> ((currentUser w = Some cu \<and> ref_fault w (users_path (user_uid cu)) = None
        \<and> faults w (length (calls w)) = Some e) \<longrightarrow>
      fst (updateProfile data w) = Inl e
      \<and> toasts (snd (updateProfile data w))
          = (if isOffline w then toasts w else toasts w @ [ToastError ''Failed to update profile''])
      \<and> isOffline (snd (updateProfile data w)) = isOffline w)"
proof -
  have f: "(ref_fault w (users_path uid) \<noteq> None \<or> faults w (length (calls w)) \<noteq> None) \<longrightarrow>
      fst (fetchUserProfile uid w) = Inr None
      \<and> isOffline (snd (fetchUserProfile uid w)) = isOffline w
      \<and> users_db (snd (fetchUserProfile uid w)) = users_db w"
    by (auto simp add: fetchUserProfile_def task_defs Let_def split: option.splits)
  have u: "(currentUser w = Some cu \<and> ref_fault w (users_path (user_uid cu)) = None
        \<and> faults w (length (calls w)) = Some e) \<longrightarrow>
      fst (updateProfile data w) = Inl e
      \<and> toasts (snd (updateProfile data w))
          = (if isOffline w then toasts w else toasts w @ [ToastError ''Failed to update profile''])
      \<and> isOffline (snd (updateProfile data w)) = isOffline w"
    by (auto simp add: updateProfile_def updateUserProfile_def task_defs Let_def)
  show ?thesis using f u by blast
qed

theorem offline_failures_witness:
  "faults offline_world (length (calls offline_world)) = Some network_error
   \<and> currentUser offline_world = Some alice
   \<and> ref_fault offline_world (users_path (user_uid alice)) = None
   \<and> isOffline offline_world
   \<and> fst (fetchUserProfile ''u1'' offline_world) = Inr None
   \<and> isOffline (snd (fetchUserProfile ''u1'' offline_world))
   \<and> fst (updateProfile name_data offline_world) = Inl network_error
   \<and> toasts (snd (updateProfile name_data offline_world)) = toasts offline_world
   \<and> isOffline (snd (updateProfile name_data offline_world))"
proof -
  have h: "faults offline_world (length (calls offline_world)) = Some network_error"
    "currentUser offline_world = Some alice"
    "ref_fault offline_world (users_path (user_uid alice)) = None"
    "isOffline offline_world"
    by (simp_all add: offline_world_def initial_world_def)
  have n: "faults offline_world (length (calls offline_world)) \<noteq> None"
    using h(1) by simp
  note t = offline_failures [of offline_world "''u1''" alice network_error name_data]
  have a: "fst (fetchUserProfile ''u1'' offline_world) = Inr None"
    "isOffline (snd (fetchUserProfile ''u1'' offline_world)) = isOffline offline_world"
    using t n by blast+
  have b: "fst (updateProfile name_data offline_world) = Inl network_error"
    "toasts (snd (updateProfile name_data offline_world))
       = (if isOffline offline_world then toasts offline_world
          else toasts offline_world @ [ToastError ''Failed to update profile''])"
    "isOffline (snd (updateProfile name_data offline_world)) = isOffline offline_world"
    using t h(1,2,3) by blast+
  show ?thesis using h a b by simp
qed

text \<open>
  The claim as stated fails on both counts: the offline fetch shows a notification, and
  the failed \<open>updateProfile\<close>, which is not a fetch, shows none.
\<close>

theorem offline_counterexample:
  "isOffline offline_world
   \<and> toasts offline_world = []
   \<and> toasts (snd (fetchUserProfile ''u1'' offline_world)) = [ToastError ''Unable to load profile'']
   \<and> fst (updateProfile name_data offline_world) = Inl network_error
   \<and> toasts (snd (updateProfile name_data offline_world)) = []"
  by (simp add: fetchUserProfile_def updateProfile_def updateUserProfile_def
        task_defs Let_def world_defs name_data_def)

section \<open>Partial merges, deletion and createdAt\<close>

text \<open>
  Claim C6, as the code has it. A mutation made through \<open>updateUserProfile\<close> or
  \<open>updateProfile\<close> is a partial merge: every field absent from the supplied partial data,
  other than updatedAt, keeps its stored value, in every record. No history of operations
  deletes a profile record. The createdAt of a record never changes across a history of
  operations that do not go through \<open>createUserProfile\<close> (so without \<open>register\<close> and
  \<open>googleSignIn\<close>) and whose updates supply no createdAt.
\<close>

theorem merges_keep_records:
  "(data k = None \<and> k \<noteq> ''updatedAt'' \<longrightarrow>
      users_db (snd (updateUserProfile uid data w)) p k = users_db w p k
      \<and> users_db (snd (updateProfile data w)) p k = users_db w p k)
   \<and> (users_db w p \<noteq> Map.empty \<longrightarrow> users_db (perform_all xs w) p \<noteq> Map.empty)
   \<and> (list_all merges_only xs \<and> users_db w p ''createdAt'' = Some c \<longrightarrow>
      users_db (perform_all xs w) p ''createdAt'' = Some c)"
proof -
  have a: "data k = None \<and> k \<noteq> ''updatedAt'' \<longrightarrow>
      users_db (snd (updateUserProfile uid data w)) p k = users_db w p k
      \<and> users_db (snd (updateProfile data w)) p k = users_db w p k"
    by (simp add: update_absent updateProfile_absent)
  have b: "users_db w p \<noteq> Map.empty \<longrightarrow> users_db (perform_all xs w) p \<noteq> Map.empty"
    using perform_all_no_delete [of w xs] by (simp add: no_delete_def)
  have c: "list_all merges_only xs \<and> users_db w p ''createdAt'' = Some c \<longrightarrow>
      users_db (perform_all xs w) p ''createdAt'' = Some c"
    using perform_all_same_createdAt [of xs w] by (auto simp add: same_createdAt_def)
  show ?thesis using a b c by blast
qed

theorem merges_keep_records_witness:
  "name_data ''createdAt'' = None
   \<and> users_db registered_world ''users/u1'' ''createdAt'' = Some (Iso 10)
   \<and> users_db registered_world ''users/u1'' \<noteq> Map.empty
   \<and> list_all merges_only [Login ''a@x.com'' ''pw123456'', UpdateProfile name_data, Logout]
   \<and> users_db (snd (updateUserProfile ''u1'' name_data registered_world)) ''users/u1'' ''createdAt''
       = Some (Iso 10)
   \<and> users_db (snd (updateProfile name_data registered_world)) ''users/u1'' ''createdAt''
       = Some (Iso 10)
   \<and> users_db (perform_all [Login ''a@x.com'' ''pw123456'', UpdateProfile name_data, Logout]
        registered_world) ''users/u1'' \<noteq> Map.empty
   \<and> users_db (perform_all [Login ''a@x.com'' ''pw123456'', UpdateProfile name_data, Logout]
        registered_world) ''users/u1'' ''createdAt'' = Some (Iso 10)"
proof -
  let ?xs = "[Login ''a@x.com'' ''pw123456'', UpdateProfile name_data, Logout]"
  have h: "name_data ''createdAt'' = None" "''createdAt'' \<noteq> ''updatedAt''"
    "users_db registered_world ''users/u1'' ''createdAt'' = Some (Iso 10)"
    "list_all merges_only ?xs"
    by (simp_all add: name_data_def world_defs)
  have n: "users_db registered_world ''users/u1'' \<noteq> Map.empty"
    using h(3) by auto
  note t = merges_keep_records [of name_data "''createdAt''" "''u1''" registered_world
      "''users/u1''" ?xs "Iso 10"]
  have a: "users_db (snd (updateUserProfile ''u1'' name_data registered_world)) ''users/u1''
             ''createdAt'' = users_db registered_world ''users/u1'' ''createdAt''"
    "users_db (snd (updateProfile name_data registered_world)) ''users/u1''
             ''createdAt'' = users_db registered_world ''users/u1'' ''createdAt''"
    using t h(1,2) by blast+
  have b: "users_db (perform_all ?xs registered_world) ''users/u1'' \<noteq> Map.empty"
    using t n by blast
  have c: "users_db (perform_all ?xs registered_world) ''users/u1'' ''createdAt'' = Some (Iso 10)"
    using t h(3,4) by blast
  show ?thesis using h n a b c by simp
qed

text \<open>
  The claim as stated fails: Alice has a record created at instant 10; she signs in with
  Google, \<open>createUserProfile\<close> replaces the record, and its createdAt is now the clock
  reading of the sign-in, although the data \<open>googleSignIn\<close> supplies has no createdAt.
\<close>

theorem googleSignIn_createdAt_counterexample:
  "users_db registered_world (users_path ''u1'') ''createdAt'' = Some (Iso 10)
   \<and> users_db (perform GoogleSignIn registered_world) (users_path ''u1'') ''createdAt''
       = Some (Iso 1000)"
proof -
  have h: "faults registered_world (length (calls registered_world)) = None"
    "faults registered_world (Suc (length (calls registered_world))) = None"
    "ref_fault registered_world
       (users_path (user_uid (identity registered_world (length (calls registered_world))))) = None"
    by (simp_all add: world_defs)
  have e: "user_uid (identity registered_world (length (calls registered_world))) = ''u1''"
    "clock registered_world (reads registered_world) = 1000"
    "users_db registered_world (users_path ''u1'') ''createdAt'' = Some (Iso 10)"
    by (simp_all add: world_defs)
  have "users_db (snd (googleSignIn registered_world))
          (users_path (user_uid (identity registered_world (length (calls registered_world)))))
          ''createdAt'' = Some (Iso (clock registered_world (reads registered_world)))"
    using h by (rule googleSignIn_createdAt)
  then have "users_db (snd (googleSignIn registered_world)) (users_path ''u1'') ''createdAt''
      = Some (Iso 1000)"
    by (simp only: e)
  then show ?thesis using e(3) by simp
qed

end
